theory Spec2Isabelle
  imports
    Main
    "HOL-Library.Char_ord"
    "HOL-Library.List_Lexorder"
    "HOL-Library.Product_Lexorder"
begin

section \<open>The functools plugin: completing a class decorated with total_ordering\<close>

text \<open>
  The development embeds \<^verbatim>\<open>mypy/plugins/functools.py\<close>. The plugin runs once for each
  class decorated with \<^verbatim>\<open>functools.total_ordering\<close>: it scans the method resolution order
  of the class for the four ordering methods, picks one of them as the root, and adds the
  missing ones to the class with the operand and return type of the root.
\<close>

text \<open>
  The plugin imports \<^verbatim>\<open>mypy.nodes\<close>, \<^verbatim>\<open>mypy.types\<close>, \<^verbatim>\<open>mypy.plugin\<close> and
  \<^verbatim>\<open>mypy.plugins.common\<close>, which are not part of the sources. Their classes and functions
  are modelled as far as the plugin uses them: by the attributes it reads, the tests it
  makes (\<^verbatim>\<open>isinstance\<close>, \<^verbatim>\<open>==\<close>) and the calls it makes.
\<close>

subsection \<open>Types, as far as the plugin inspects them\<close>

text \<open>
  Modelled from the spec: the argument kinds of \<^verbatim>\<open>mypy.nodes\<close>. The spec has the parameter
  kinds required-positional (\<^verbatim>\<open>ARG_POS\<close>), optional-positional (\<^verbatim>\<open>ARG_OPT\<close>),
  variadic-keyword (\<^verbatim>\<open>ARG_STAR2\<close>) and other (such as keyword-only): the plugin names the
  first three, and the other kinds reach it only through the kinds of a signature.
\<close>

datatype arg_kind = ARG_POS | ARG_OPT | ARG_STAR | ARG_NAMED | ARG_STAR2 | ARG_NAMED_OPT

text \<open>
  Modelled from the spec: \<^verbatim>\<open>mypy.types.TypeOfAny\<close>, why a type is \<^verbatim>\<open>Any\<close>. The spec has the
  marker of the plugin (\<^verbatim>\<open>implementation_artifact\<close>) be told apart from every other one.
\<close>

datatype type_of_any =
    unannotated | explicit | from_unimported_type | from_omitted_generics
  | from_error | special_form | from_another_any | implementation_artifact

text \<open>
  Modelled from the spec: \<^verbatim>\<open>mypy.types.Type\<close>, by the classes of types that the plugin
  tells apart. A declared signature is, in the spec, the list of the parameter kinds and
  types with a return type. An instance type is a class (by its full name) with its type
  arguments, an unbound type is a name not yet resolved with its arguments, a callable type
  holds the types and kinds of its arguments and its return type, and a type alias holds the
  type it stands for. Every other kind of type (unions, tuples, overloads, ...) is of no
  interest to the plugin beyond not being one of those above, and neither are the further
  attributes of a type (its position in the source, the last known value of an instance).
  Two types are equal when they are built in the same way from equal parts.
\<close>

datatype ty =
    Instance string "ty list"
  | AnyType type_of_any
  | UnboundType string "ty list"
  | CallableType callable
  | TypeAliasType ty
  | OtherType string
and callable =
    Callable (arg_types: "ty list") (arg_kinds: "arg_kind list") (ret_type: ty)

text \<open>
  Modelled from the spec: \<^verbatim>\<open>mypy.types.get_proper_type\<close>, which is not part of the sources.
  The spec leaves the representation of types to the type checker. The function gives the
  type that a type stands for: it expands type aliases until the type is no alias any more.
  The plugin also applies it to an optional type, and \<^verbatim>\<open>get_proper_type(None)\<close> is \<^verbatim>\<open>None\<close>.
\<close>

fun get_proper_type :: "ty \<Rightarrow> ty" where
  "get_proper_type (TypeAliasType t) = get_proper_type t"
| "get_proper_type t = t"

text \<open>
  Modelled from the spec: \<^verbatim>\<open>ctx.api.named_type\<close> of the semantic analyser, which is not part
  of the sources. The spec has \<^verbatim>\<open>resolve_named_type(name) -> Type\<close> give the canonical type
  of that name: the instance type of the class, without type arguments.
\<close>

definition named_type :: "string \<Rightarrow> ty" where
  "named_type fullname = Instance fullname []"

subsection \<open>Symbol tables and the class under analysis\<close>

text \<open>
  Modelled from the spec: the node of a symbol table entry (\<^verbatim>\<open>mypy.nodes\<close>). The spec has a
  member be a function-like declaration, a variable declaration or another declaration: a
  function item with its \<^verbatim>\<open>is_static\<close> flag and its
  (optional) type, a variable with its name, (optional) type and \<^verbatim>\<open>is_staticmethod\<close> flag,
  or anything else (a decorator, a class, a missing node).
\<close>

datatype node =
    FuncItem bool "ty option"
  | Var string "ty option" bool
  | OtherNode

text \<open>\<^verbatim>\<open>_MethodInfo\<close>, the named tuple of the plugin.\<close>

datatype method_info = MethodInfo (is_static: bool) (callable_type: callable)

text \<open>
  Modelled from the spec: the parameter of an added method,
  \<^verbatim>\<open>mypy.nodes.Argument(variable, type_annotation, initializer, kind)\<close>, with the variable
  \<^verbatim>\<open>Var(name, type)\<close> given by its name and type; the plugin never passes an initializer.
\<close>

datatype argument = Argument (variable: "string \<times> ty") (type_annotation: ty) (kind: arg_kind)

type_synonym expression = string

text \<open>
  \<^verbatim>\<open>ClassDefContext\<close>, the part that the plugin reads and does not change: the Python
  version of the options (a tuple of integers), the class under analysis \<^verbatim>\<open>ctx.cls.info\<close>
  (a class is identified by its full name), its method resolution order
  \<^verbatim>\<open>ctx.cls.info.mro\<close>, and the expression \<^verbatim>\<open>ctx.reason\<close> that errors are reported at.
\<close>

record class_def_context =
  python_version :: "int list"
  cls :: string
  mro :: "string list"
  reason :: expression

text \<open>
  What a run can change: the symbol table \<^verbatim>\<open>names\<close> of every class (the class under
  analysis occurs in its own method resolution order, so that a method added to it is seen
  by a later scan), the errors reported through \<^verbatim>\<open>ctx.api.fail\<close>, and the calls of
  \<^verbatim>\<open>add_method_to_class\<close> (class, method name, arguments, return type).
\<close>

record state =
  names :: "string \<Rightarrow> string \<rightharpoonup> node"
  errors :: "(string \<times> expression) list"
  added :: "(string \<times> string \<times> argument list \<times> ty) list"

text \<open>The exceptions that a lookup in a dictionary and \<^verbatim>\<open>max\<close> can raise.\<close>

datatype exception = KeyError | ValueError

text \<open>
  Modelled from the spec: \<^verbatim>\<open>ctx.api.fail\<close> of the semantic analyser, which is not part of
  the sources. The spec has \<^verbatim>\<open>report_error(message, source_location)\<close> report the error to
  the user: the error is recorded.
\<close>

definition fail :: "string \<Rightarrow> expression \<Rightarrow> state \<Rightarrow> state" where
  "fail msg ctx_reason st = st\<lparr>errors := errors st @ [(msg, ctx_reason)]\<rparr>"

text \<open>
  Modelled from the spec: the effect of \<^verbatim>\<open>mypy.plugins.common.add_method_to_class\<close> on the
  symbol table of the class; the function is not part of the sources. The spec has
  \<^verbatim>\<open>insert_method(class, name, parameters, return_type)\<close> insert the method into the member
  table of the class as if the author of the class had written it: an instance method whose
  signature is the receiver followed by the given parameters.
\<close>

definition insert_method ::
  "string \<Rightarrow> string \<Rightarrow> argument list \<Rightarrow> ty \<Rightarrow>
     (string \<Rightarrow> string \<rightharpoonup> node) \<Rightarrow> (string \<Rightarrow> string \<rightharpoonup> node)" where
  "insert_method c name args return_type tables =
     tables(c := (tables c)(name \<mapsto>
       FuncItem False (Some (CallableType
         (Callable (Instance c [] # map type_annotation args)
                   (ARG_POS # map kind args) return_type)))))"

text \<open>
  A call \<^verbatim>\<open>add_method_to_class(ctx.api, ctx.cls, name, args, return_type)\<close> of the plugin:
  the call is recorded, and the method is inserted.
\<close>

definition add_method_to_class ::
  "string \<Rightarrow> string \<Rightarrow> argument list \<Rightarrow> ty \<Rightarrow> state \<Rightarrow> state" where
  "add_method_to_class c name args return_type st =
     st\<lparr>names := insert_method c name args return_type (names st),
        added := added st @ [(c, name, args, return_type)]\<rparr>"

subsection \<open>The plugin\<close>

text \<open>
  \<^verbatim>\<open>_ORDERING_METHODS\<close> is a Python set of four strings. The order in which Python
  enumerates a set is not specified; the two loops over it take its elements in the order
  below. What they compute does not depend on that order: see the lemmas on enumerations
  among the properties.
\<close>

definition ORDERING_METHODS :: "string list" where
  "ORDERING_METHODS = [''__lt__'', ''__le__'', ''__gt__'', ''__ge__'']"

text \<open>
  The dictionary \<^verbatim>\<open>comparison_methods\<close>: Python dictionaries keep the order of insertion
  and are enumerated in that order, so it is an association list that is only ever
  extended at its end, by names it does not hold yet.
\<close>

type_synonym comparison_methods = "(string \<times> method_info option) list"

definition dict_get :: "comparison_methods \<Rightarrow> string \<Rightarrow> method_info option" where
  \<comment> \<open>\<^verbatim>\<open>d.get(k)\<close>: \<^verbatim>\<open>None\<close> for a missing key.\<close>
  "dict_get d k = (case map_of d k of None \<Rightarrow> None | Some v \<Rightarrow> v)"

definition dict_getitem :: "comparison_methods \<Rightarrow> string \<Rightarrow> exception + method_info option" where
  \<comment> \<open>\<^verbatim>\<open>d[k]\<close>: raises \<^verbatim>\<open>KeyError\<close> for a missing key.\<close>
  "dict_getitem d k = (case map_of d k of None \<Rightarrow> Inl KeyError | Some v \<Rightarrow> Inr v)"

text \<open>
  \<^verbatim>\<open>max(iterable, key=...)\<close>: the first element is the maximum so far, and a later element
  replaces it when its key is strictly greater. An empty iterable raises \<^verbatim>\<open>ValueError\<close>.
\<close>

fun py_max_from :: "('a \<Rightarrow> 'k::ord) \<Rightarrow> 'a \<Rightarrow> 'a list \<Rightarrow> 'a" where
  "py_max_from key m [] = m"
| "py_max_from key m (x # xs) = py_max_from key (if key x > key m then x else m) xs"

definition py_max :: "'a list \<Rightarrow> ('a \<Rightarrow> 'k::ord) \<Rightarrow> exception + 'a" where
  "py_max xs key = (case xs of [] \<Rightarrow> Inl ValueError | x # rest \<Rightarrow> Inr (py_max_from key x rest))"

text \<open>\<^verbatim>\<open>s.split(sep)\<close> for a separator of one character; the result is never empty.\<close>

fun str_split :: "string \<Rightarrow> char \<Rightarrow> string list" where
  "str_split [] sep = [[]]"
| "str_split (c # cs) sep =
     (if c = sep then [] # str_split cs sep
      else (case str_split cs sep of [] \<Rightarrow> [[c]] | w # ws \<Rightarrow> (c # w) # ws))"

subsubsection \<open>\<^verbatim>\<open>_find_other_type\<close>\<close>

text \<open>
  The loop over \<^verbatim>\<open>zip(method.type.arg_kinds, method.type.arg_types)\<close>, from the counter
  \<^verbatim>\<open>cur_pos_arg\<close> on; the result is \<^verbatim>\<open>other_arg\<close> at the end of the loop.
\<close>

fun find_other_arg :: "nat \<Rightarrow> nat \<Rightarrow> (arg_kind \<times> ty) list \<Rightarrow> ty option" where
  "find_other_arg first_arg_pos cur_pos_arg [] = None"
| "find_other_arg first_arg_pos cur_pos_arg ((arg_kind, arg_type) # rest) =
     (if arg_kind = ARG_POS \<or> arg_kind = ARG_OPT then
        (if cur_pos_arg = first_arg_pos then Some arg_type
         else find_other_arg first_arg_pos (cur_pos_arg + 1) rest)
      else if arg_kind \<noteq> ARG_STAR2 then Some arg_type
      else find_other_arg first_arg_pos cur_pos_arg rest)"

definition find_other_type :: "method_info \<Rightarrow> ty" where
  "find_other_type method =
     (let first_arg_pos = (if is_static method then 0 else 1);
          other_arg = find_other_arg first_arg_pos 0
            (zip (arg_kinds (callable_type method)) (arg_types (callable_type method)))
      in case other_arg of
           None \<Rightarrow> AnyType implementation_artifact
         | Some t \<Rightarrow> t)"

subsubsection \<open>\<^verbatim>\<open>_analyze_class\<close>\<close>

text \<open>
  What the scan records for a name that the symbol table of a class holds, from the node
  of the entry: lines 92 to 103.
\<close>

fun method_info_of_node :: "node \<Rightarrow> method_info option" where
  "method_info_of_node (FuncItem node_is_static (Some (CallableType t))) =
     Some (MethodInfo node_is_static t)"
| "method_info_of_node (Var name node_type is_staticmethod) =
     (case map_option get_proper_type node_type of
        Some (CallableType proper_type) \<Rightarrow> Some (MethodInfo is_staticmethod proper_type)
      | _ \<Rightarrow> None)"
| "method_info_of_node node = None"

text \<open>The inner loop, over the names, for the symbol table of one class.\<close>

fun analyze_names ::
  "string list \<Rightarrow> (string \<rightharpoonup> node) \<Rightarrow> comparison_methods \<Rightarrow> comparison_methods" where
  "analyze_names [] cls_names comparison_methods = comparison_methods"
| "analyze_names (name # rest) cls_names comparison_methods =
     analyze_names rest cls_names
       (case cls_names name of
          None \<Rightarrow> comparison_methods
        | Some entry \<Rightarrow>
            if map_of comparison_methods name = None
            then comparison_methods @ [(name, method_info_of_node entry)]
            else comparison_methods)"

text \<open>
  The outer loop, over the classes of \<^verbatim>\<open>ctx.cls.info.mro[:-1]\<close>; the inner loop runs over
  the enumeration \<open>ordering_methods\<close> of the names.
\<close>

fun analyze_mro ::
  "string list \<Rightarrow> string list \<Rightarrow> (string \<Rightarrow> string \<rightharpoonup> node) \<Rightarrow>
     comparison_methods \<Rightarrow> comparison_methods" where
  "analyze_mro [] ordering_methods tables comparison_methods = comparison_methods"
| "analyze_mro (c # rest) ordering_methods tables comparison_methods =
     analyze_mro rest ordering_methods tables
       (analyze_names ordering_methods (tables c) comparison_methods)"

definition analyze_class :: "class_def_context \<Rightarrow> state \<Rightarrow> comparison_methods" where
  "analyze_class ctx st = analyze_mro (butlast (mro ctx)) ORDERING_METHODS (names st) []"

subsubsection \<open>\<^verbatim>\<open>functools_total_ordering_maker_callback\<close>\<close>

text \<open>The return type of the added methods, from the root method: lines 47 to 53.\<close>

definition is_unbound_bool :: "ty \<Rightarrow> bool" where
  \<comment> \<open>\<^verbatim>\<open>isinstance(t, UnboundType) and t.name.split('.')[-1] == 'bool'\<close>\<close>
  "is_unbound_bool t =
     (case t of UnboundType name args \<Rightarrow> last (str_split name CHR ''.'') = ''bool'' | _ \<Rightarrow> False)"

definition root_ret_type :: "method_info \<Rightarrow> ty" where
  "root_ret_type root_method =
     (let bool_type = named_type ''__builtins__.bool'' in
      if ret_type (callable_type root_method) \<noteq> named_type ''__builtins__.bool'' then
        (let proper_ret_type = get_proper_type (ret_type (callable_type root_method)) in
         if \<not> is_unbound_bool proper_ret_type then AnyType implementation_artifact
         else bool_type)
      else bool_type)"

text \<open>The loop that adds the methods: lines 54 to 59.\<close>

fun add_methods ::
  "string list \<Rightarrow> string \<Rightarrow> comparison_methods \<Rightarrow> ty \<Rightarrow> ty \<Rightarrow> state \<Rightarrow> state" where
  "add_methods [] c comparison_methods other_type return_type st = st"
| "add_methods (additional_op # rest) c comparison_methods other_type return_type st =
     add_methods rest c comparison_methods other_type return_type
       (if dict_get comparison_methods additional_op = None
        then add_method_to_class c additional_op
               [Argument (''other'', other_type) other_type ARG_POS] return_type st
        else st)"

text \<open>The two messages of the plugin.\<close>

definition python2_message :: string where
  \<open>python2_message = ''"functools.total_ordering" is not supported in Python 2''\<close>

definition no_ordering_message :: string where
  \<open>no_ordering_message =
     ''No ordering operation defined when using "functools.total_ordering": < > <= >=''\<close>

text \<open>
  The key of the root selection, \<^verbatim>\<open>lambda k: (comparison_methods[k] is None, k)\<close>: a
  tuple of a truth value and a string. Python compares tuples lexicographically, truth
  values as \<^verbatim>\<open>False < True\<close> and strings lexicographically by their characters; these are
  the orders of pairs, \<^typ>\<open>bool\<close> and \<^typ>\<open>string\<close> here. The key is only applied to names
  of the dictionary.
\<close>

definition root_key :: "comparison_methods \<Rightarrow> string \<Rightarrow> bool \<times> string" where
  "root_key comparison_methods k = (dict_getitem comparison_methods k = Inr None, k)"

definition functools_total_ordering_maker_callback ::
  "class_def_context \<Rightarrow> bool \<Rightarrow> state \<Rightarrow> exception + state" where
  "functools_total_ordering_maker_callback ctx auto_attribs_default st =
     (if python_version ctx < [3] then
        Inr (fail python2_message (reason ctx) st)
      else
        let comparison_methods = analyze_class ctx st in
        if comparison_methods = [] then
          Inr (fail no_ordering_message (reason ctx) st)
        else
          case py_max (map fst comparison_methods) (root_key comparison_methods) of
            Inl e \<Rightarrow> Inl e
          | Inr root \<Rightarrow>
              (case dict_getitem comparison_methods root of
                 Inl e \<Rightarrow> Inl e
               | Inr None \<Rightarrow> Inr st
               | Inr (Some root_method) \<Rightarrow>
                   Inr (add_methods ORDERING_METHODS (cls ctx) comparison_methods
                          (find_other_type root_method) (root_ret_type root_method) st)))"

subsection \<open>The operand type, as the specification words it\<close>

text \<open>
  The specification of the operand type (section 4.3 of the specification), for comparison
  with \<open>find_other_type\<close>. The expected position is 0 for a static method and 1 for an
  instance method. Variadic keyword parameters are skipped. Of the parameters that are left,
  the positional ones (required or optional) at the front are counted from 0: the one at
  the expected position is the operand. When there are too few of them, the parameter of
  another kind that follows them is the operand, and when nothing follows them, there is no
  operand and the type is \<^verbatim>\<open>Any\<close>, marked as an implementation artifact.
\<close>

definition expected_position :: "method_info \<Rightarrow> nat" where
  "expected_position method = (if is_static method then 0 else 1)"

definition is_positional :: "arg_kind \<times> ty \<Rightarrow> bool" where
  "is_positional p = (fst p = ARG_POS \<or> fst p = ARG_OPT)"

definition operand_of_parameters :: "nat \<Rightarrow> (arg_kind \<times> ty) list \<Rightarrow> ty option" where
  "operand_of_parameters position parameters =
     (let considered = filter (\<lambda>p. fst p \<noteq> ARG_STAR2) parameters;
          leading = length (takeWhile is_positional considered)
      in if position < leading then Some (snd (considered ! position))
         else if leading < length considered then Some (snd (considered ! leading))
         else None)"

definition operand_type_spec :: "method_info \<Rightarrow> ty" where
  "operand_type_spec method =
     (case operand_of_parameters (expected_position method)
             (zip (arg_kinds (callable_type method)) (arg_types (callable_type method))) of
        Some t \<Rightarrow> t
      | None \<Rightarrow> AnyType implementation_artifact)"

subsection \<open>Example classes\<close>

text \<open>
  A class \<^verbatim>\<open>m.C\<close> with the base class \<^verbatim>\<open>m.B\<close>, analysed for Python 3.8 and for
  Python 2.7, and the signature \<^verbatim>\<open>(self, other: m.T) -> bool\<close> of an instance method.
\<close>

definition example_ctx :: class_def_context where
  "example_ctx =
     \<lparr>python_version = [3, 8], cls = ''m.C'',
      mro = [''m.C'', ''m.B'', ''builtins.object''], reason = ''total_ordering''\<rparr>"

definition python2_ctx :: class_def_context where
  "python2_ctx = example_ctx\<lparr>python_version := [2, 7]\<rparr>"

definition example_signature :: callable where
  "example_signature =
     Callable [Instance ''m.C'' [], Instance ''m.T'' []] [ARG_POS, ARG_POS]
       (named_type ''__builtins__.bool'')"

definition state_of :: "(string \<Rightarrow> string \<rightharpoonup> node) \<Rightarrow> state" where
  "state_of tables = \<lparr>names = tables, errors = [], added = []\<rparr>"

text \<open>No class declares an ordering method.\<close>

definition no_methods :: state where
  "no_methods = state_of (\<lambda>c. Map.empty)"

text \<open>
  \<^verbatim>\<open>m.C\<close> defines \<^verbatim>\<open>__lt__\<close> as a method with the example signature, and \<^verbatim>\<open>__le__\<close> as a
  variable of type \<^verbatim>\<open>int\<close>.
\<close>

definition lt_and_le_variable :: state where
  "lt_and_le_variable =
     state_of ((\<lambda>c. Map.empty)
       (''m.C'' := [''__lt__'' \<mapsto> FuncItem False (Some (CallableType example_signature)),
                    ''__le__'' \<mapsto> Var ''__le__'' (Some (Instance ''builtins.int'' [])) False]))"

text \<open>
  Classes whose only ordering method is \<^verbatim>\<open>__lt__\<close>, defined in \<^verbatim>\<open>m.C\<close> with a given
  signature, and the state that a run leaves behind for them: the three other methods are
  added to \<^verbatim>\<open>m.C\<close>, with the operand type \<^verbatim>\<open>m.T\<close> and a given return type.
\<close>

definition returns_int_signature :: callable where
  "returns_int_signature =
     Callable [Instance ''m.C'' [], Instance ''m.T'' []] [ARG_POS, ARG_POS]
       (Instance ''builtins.int'' [])"

definition static_signature :: callable where
  "static_signature =
     Callable [Instance ''builtins.int'' []] [ARG_POS] (named_type ''__builtins__.bool'')"

definition lt_class :: "callable \<Rightarrow> state" where
  "lt_class signature =
     state_of ((\<lambda>c. Map.empty)
       (''m.C'' := [''__lt__'' \<mapsto> FuncItem False (Some (CallableType signature))]))"

definition other_argument :: "ty \<Rightarrow> argument list" where
  "other_argument t = [Argument (''other'', t) t ARG_POS]"

definition added_method :: "ty \<Rightarrow> ty \<Rightarrow> node" where
  "added_method other_type return_type =
     FuncItem False (Some (CallableType
       (Callable [Instance ''m.C'' [], other_type] [ARG_POS, ARG_POS] return_type)))"

definition lt_class_completed :: "callable \<Rightarrow> ty \<Rightarrow> state" where
  "lt_class_completed signature return_type =
     \<lparr>names = (\<lambda>c. Map.empty)
        (''m.C'' :=
           [''__lt__'' \<mapsto> FuncItem False (Some (CallableType signature)),
            ''__le__'' \<mapsto> added_method (Instance ''m.T'' []) return_type,
            ''__gt__'' \<mapsto> added_method (Instance ''m.T'' []) return_type,
            ''__ge__'' \<mapsto> added_method (Instance ''m.T'' []) return_type]),
      errors = [],
      added =
        [(''m.C'', ''__le__'', other_argument (Instance ''m.T'' []), return_type),
         (''m.C'', ''__gt__'', other_argument (Instance ''m.T'' []), return_type),
         (''m.C'', ''__ge__'', other_argument (Instance ''m.T'' []), return_type)]\<rparr>"

text \<open>\<^verbatim>\<open>m.C\<close> defines all four ordering methods, with the example signature.\<close>

definition all_four :: state where
  "all_four =
     state_of ((\<lambda>c. Map.empty)
       (''m.C'' :=
          [''__lt__'' \<mapsto> FuncItem False (Some (CallableType example_signature)),
           ''__le__'' \<mapsto> FuncItem False (Some (CallableType example_signature)),
           ''__gt__'' \<mapsto> FuncItem False (Some (CallableType example_signature)),
           ''__ge__'' \<mapsto> FuncItem False (Some (CallableType example_signature))]))"

text \<open>
  \<^verbatim>\<open>m.C\<close> and its base class \<^verbatim>\<open>m.B\<close> both define \<^verbatim>\<open>__lt__\<close>, the base class as a static
  method with another signature; the base class also holds a variable \<^verbatim>\<open>__ge__\<close> of a
  callable type.
\<close>

definition shadowing :: state where
  "shadowing =
     state_of ((\<lambda>c. Map.empty)
       (''m.C'' := [''__lt__'' \<mapsto> FuncItem False (Some (CallableType example_signature))],
        ''m.B'' := [''__lt__'' \<mapsto> FuncItem True (Some (CallableType static_signature)),
                    ''__ge__'' \<mapsto> Var ''__ge__'' (Some (CallableType static_signature)) True]))"

text \<open>
  \<^verbatim>\<open>m.C\<close> defines \<^verbatim>\<open>__lt__\<close> with the example signature, and the symbol table of \<^verbatim>\<open>m.B\<close>
  holds under \<^verbatim>\<open>__gt__\<close> a node that is neither a function item nor a variable (a decorated
  method, for one).
\<close>

definition lt_and_inherited_gt :: state where
  "lt_and_inherited_gt =
     state_of ((\<lambda>c. Map.empty)
       (''m.C'' := [''__lt__'' \<mapsto> FuncItem False (Some (CallableType example_signature))],
        ''m.B'' := [''__gt__'' \<mapsto> OtherNode]))"

section \<open>Properties\<close>

subsection \<open>The scan of the method resolution order\<close>

lemma map_of_analyze_names:
  "map_of (analyze_names ns tbl cm) n =
     (case map_of cm n of
        Some v \<Rightarrow> Some v
      | None \<Rightarrow> if n \<in> set ns then map_option method_info_of_node (tbl n) else None)"
proof (induction ns arbitrary: cm)
  case Nil
  then show ?case by (simp split: option.splits)
next
  case (Cons a ns)
  show ?case
    by (cases "tbl a"; cases "map_of cm a"; cases "map_of cm n")
       (auto simp: Cons.IH map_add_def split: option.splits)
qed

lemma distinct_analyze_names:
  "distinct (map fst cm) \<Longrightarrow> distinct (map fst (analyze_names ns tbl cm))"
proof (induction ns arbitrary: cm)
  case Nil
  then show ?case by simp
next
  case (Cons a ns)
  then show ?case
    by (auto simp: map_of_eq_None_iff split: option.splits)
qed

lemma map_of_analyze_mro:
  "map_of (analyze_mro cs ns tables cm) n =
     (case map_of cm n of
        Some v \<Rightarrow> Some v
      | None \<Rightarrow>
          if n \<in> set ns then
            (case find (\<lambda>c. tables c n \<noteq> None) cs of
               None \<Rightarrow> None
             | Some c \<Rightarrow> map_option method_info_of_node (tables c n))
          else None)"
proof (induction cs arbitrary: cm)
  case Nil
  then show ?case by (simp split: option.splits)
next
  case (Cons c cs)
  show ?case
    by (cases "tables c n"; cases "map_of cm n")
       (auto simp: Cons.IH map_of_analyze_names split: option.splits)
qed

lemma distinct_analyze_mro:
  "distinct (map fst cm) \<Longrightarrow> distinct (map fst (analyze_mro cs ns tables cm))"
  by (induction cs arbitrary: cm) (simp_all add: distinct_analyze_names)

lemma analyze_class_empty:
  assumes "\<forall>c\<in>set (butlast (mro ctx)). \<forall>n\<in>set ORDERING_METHODS. names st c n = None"
  shows "analyze_class ctx st = []"
proof -
  have "find (\<lambda>c. names st c n \<noteq> None) (butlast (mro ctx)) = None" if "n \<in> set ORDERING_METHODS" for n
    using assms that by (simp add: find_None_iff)
  then have "map_of (analyze_class ctx st) n = None" for n
    by (simp add: analyze_class_def map_of_analyze_mro)
  then have "map_of (analyze_class ctx st) = Map.empty" by (rule ext)
  then show ?thesis by (simp only: map_of_eq_empty_iff)
qed

lemma find_agree_up_to:
  "\<forall>x\<in>set (pre @ [c]). P x = Q x \<Longrightarrow> P c \<Longrightarrow>
     find P (pre @ c # post) = find Q (pre @ c # post)"
  by (induction pre) auto

lemma find_in_prefix:
  "P c \<Longrightarrow> find P (pre @ c # post) = Some d \<Longrightarrow> d \<in> set (pre @ [c])"
  by (induction pre) (auto split: if_splits)

lemma map_of_analyze_class:
  "map_of (analyze_class ctx st) n =
     (if n \<in> set ORDERING_METHODS then
        (case find (\<lambda>c. names st c n \<noteq> None) (butlast (mro ctx)) of
           None \<Rightarrow> None
         | Some c \<Rightarrow> map_option method_info_of_node (names st c n))
      else None)"
  by (simp add: analyze_class_def map_of_analyze_mro)

lemma analyze_class_present_iff:
  "map_of (analyze_class ctx st) n \<noteq> None \<longleftrightarrow>
     n \<in> set ORDERING_METHODS \<and> (\<exists>c\<in>set (butlast (mro ctx)). names st c n \<noteq> None)"
proof (cases "find (\<lambda>c. names st c n \<noteq> None) (butlast (mro ctx))")
  case None
  then have none: "\<forall>c\<in>set (butlast (mro ctx)). names st c n = None"
    by (simp add: find_None_iff)
  have "map_of (analyze_class ctx st) n = None"
    using None by (simp add: map_of_analyze_class)
  then show ?thesis using none by simp
next
  case (Some c)
  then have c: "c \<in> set (butlast (mro ctx))" "names st c n \<noteq> None"
    by (auto simp: find_Some_iff)
  have "map_of (analyze_class ctx st) n =
      (if n \<in> set ORDERING_METHODS then map_option method_info_of_node (names st c n) else None)"
    using Some by (simp add: map_of_analyze_class)
  then show ?thesis using c by auto
qed

subsection \<open>The operand type\<close>

text \<open>The steps of the walk over the parameters, one by one.\<close>

lemma find_other_arg_steps:
  shows "find_other_arg first_arg_pos cur_pos_arg [] = None"
    and "k = ARG_POS \<or> k = ARG_OPT \<Longrightarrow>
           find_other_arg first_arg_pos first_arg_pos ((k, t) # rest) = Some t"
    and "k = ARG_POS \<or> k = ARG_OPT \<Longrightarrow> cur_pos_arg \<noteq> first_arg_pos \<Longrightarrow>
           find_other_arg first_arg_pos cur_pos_arg ((k, t) # rest) =
             find_other_arg first_arg_pos (cur_pos_arg + 1) rest"
    and "find_other_arg first_arg_pos cur_pos_arg ((ARG_STAR2, t) # rest) =
           find_other_arg first_arg_pos cur_pos_arg rest"
    and "k = ARG_STAR \<or> k = ARG_NAMED \<or> k = ARG_NAMED_OPT \<Longrightarrow>
           find_other_arg first_arg_pos cur_pos_arg ((k, t) # rest) = Some t"
  by auto

text \<open>The walk and the specification agree, from any value of the counter on.\<close>

lemma find_other_arg_spec:
  "cur \<le> first \<Longrightarrow>
     find_other_arg first cur ps = operand_of_parameters (first - cur) ps"
proof (induction ps arbitrary: cur)
  case Nil
  then show ?case by (simp add: operand_of_parameters_def)
next
  case (Cons p ps)
  obtain k t where p: "p = (k, t)" by (cases p)
  show ?case
  proof (cases "k = ARG_POS \<or> k = ARG_OPT")
    case True
    then have k2: "k \<noteq> ARG_STAR2" by auto
    show ?thesis
    proof (cases "cur = first")
      case True
      with \<open>k = ARG_POS \<or> k = ARG_OPT\<close> k2 show ?thesis
        by (auto simp: p operand_of_parameters_def is_positional_def Let_def)
    next
      case False
      with Cons.prems have lt: "Suc cur \<le> first" by simp
      then obtain d where d: "first - cur = Suc d" "first - Suc cur = d"
        by (metis Suc_diff_le diff_Suc_Suc)
      have "find_other_arg first cur (p # ps) = find_other_arg first (Suc cur) ps"
        using True False by (simp add: p)
      also have "\<dots> = operand_of_parameters d ps"
        using Cons.IH [OF lt] d by simp
      also have "\<dots> = operand_of_parameters (Suc d) (p # ps)"
        using True k2 by (auto simp: p operand_of_parameters_def is_positional_def Let_def)
      finally show ?thesis using d by simp
    qed
  next
    case False
    show ?thesis
    proof (cases "k = ARG_STAR2")
      case True
      then show ?thesis
        using Cons.IH [OF Cons.prems] by (simp add: p operand_of_parameters_def)
    next
      case k2: False
      with False show ?thesis
        by (auto simp: p operand_of_parameters_def is_positional_def Let_def)
    qed
  qed
qed

subsection \<open>The selection of the root\<close>

lemma py_max_from_mem: "py_max_from key m xs \<in> set (m # xs)"
  by (induction xs arbitrary: m) (auto split: if_splits)

lemma py_max_from_ge_start:
  fixes key :: "'a \<Rightarrow> 'k::linorder"
  shows "key m \<le> key (py_max_from key m xs)"
proof (induction xs arbitrary: m)
  case Nil
  then show ?case by simp
next
  case (Cons x xs)
  have "key m \<le> key (if key m < key x then x else m)" by auto
  also have "\<dots> \<le> key (py_max_from key (if key m < key x then x else m) xs)"
    by (rule Cons.IH)
  finally show ?case by simp
qed

lemma py_max_from_greatest:
  fixes key :: "'a \<Rightarrow> 'k::linorder"
  shows "x \<in> set (m # xs) \<Longrightarrow> key x \<le> key (py_max_from key m xs)"
proof (induction xs arbitrary: m)
  case Nil
  then show ?case by simp
next
  case (Cons y ys)
  let ?m' = "if key m < key y then y else m"
  consider "x = m" | "x = y" | "x \<in> set ys" using Cons.prems by auto
  then show ?case
  proof cases
    case 1
    have "key m \<le> key ?m'" by auto
    also have "\<dots> \<le> key (py_max_from key ?m' ys)" by (rule py_max_from_ge_start)
    finally show ?thesis using 1 by simp
  next
    case 2
    have "key y \<le> key ?m'" by auto
    also have "\<dots> \<le> key (py_max_from key ?m' ys)" by (rule py_max_from_ge_start)
    finally show ?thesis using 2 by simp
  next
    case 3
    then have "key x \<le> key (py_max_from key ?m' ys)"
      using Cons.IH [of ?m'] by simp
    then show ?thesis by simp
  qed
qed

lemma py_max_Inr:
  "py_max xs key = Inr r \<Longrightarrow> xs \<noteq> [] \<and> r \<in> set xs"
  using py_max_from_mem [of key "hd xs" "tl xs"]
  by (cases xs) (auto simp: py_max_def)

lemma py_max_greatest:
  fixes key :: "'a \<Rightarrow> 'k::linorder"
  shows "py_max xs key = Inr r \<Longrightarrow> x \<in> set xs \<Longrightarrow> key x \<le> key r"
  using py_max_from_greatest [of x "hd xs" "tl xs" key]
  by (cases xs) (auto simp: py_max_def)

lemma py_max_nonempty: "xs \<noteq> [] \<Longrightarrow> \<exists>r. py_max xs key = Inr r"
  by (cases xs) (simp_all add: py_max_def)

lemma dict_getitem_key:
  "k \<in> set (map fst d) \<Longrightarrow> \<exists>v. dict_getitem d k = Inr v \<and> dict_get d k = v"
proof -
  assume "k \<in> set (map fst d)"
  then have "map_of d k \<noteq> None" by (simp add: map_of_eq_None_iff)
  then show ?thesis by (auto simp: dict_getitem_def dict_get_def)
qed

lemma present_is_key:
  "map_of d k \<noteq> None \<Longrightarrow> k \<in> set (map fst d)"
  by (simp add: map_of_eq_None_iff)

text \<open>
  The names are ordered as the comment of the source says: \<^verbatim>\<open>__lt__\<close> is the greatest,
  then \<^verbatim>\<open>__le__\<close>, \<^verbatim>\<open>__gt__\<close> and \<^verbatim>\<open>__ge__\<close>.
\<close>

lemma ordering_names_order:
  "''__ge__'' < ''__gt__'' \<and> ''__gt__'' < ''__le__'' \<and> ''__le__'' < ''__lt__''"
  by simp

text \<open>
  What the selection does: the first component of the key is \<^verbatim>\<open>True\<close> for an entry that
  is \<^verbatim>\<open>None\<close>, and \<^verbatim>\<open>True\<close> is the greater truth value, so the root is an entry that is
  \<^verbatim>\<open>None\<close> as soon as the dictionary holds one.
\<close>

lemma root_none_iff:
  assumes "py_max (map fst cm) (root_key cm) = Inr root"
  shows "dict_getitem cm root = Inr None \<longleftrightarrow>
           (\<exists>k\<in>set (map fst cm). dict_getitem cm k = Inr None)"
proof
  assume "dict_getitem cm root = Inr None"
  then show "\<exists>k\<in>set (map fst cm). dict_getitem cm k = Inr None"
    using py_max_Inr [OF assms] by blast
next
  assume "\<exists>k\<in>set (map fst cm). dict_getitem cm k = Inr None"
  then obtain k where k: "k \<in> set (map fst cm)" "dict_getitem cm k = Inr None" by blast
  have "root_key cm k \<le> root_key cm root"
    using assms k(1) by (rule py_max_greatest)
  then have "fst (root_key cm k) \<le> fst (root_key cm root)"
    by (auto simp: less_eq_prod_def)
  then show "dict_getitem cm root = Inr None"
    using k(2) by (simp add: root_key_def)
qed

lemma known_root_all_known:
  assumes root: "py_max (map fst cm) (root_key cm) = Inr root"
    and known: "dict_getitem cm root = Inr (Some root_method)"
    and k: "k \<in> set (map fst cm)"
  shows "dict_get cm k \<noteq> None"
proof -
  obtain w where w: "dict_getitem cm k = Inr w" "dict_get cm k = w"
    using dict_getitem_key [OF k] by blast
  have "dict_getitem cm root \<noteq> Inr None"
    by (simp add: known)
  then have "\<not> (\<exists>k\<in>set (map fst cm). dict_getitem cm k = Inr None)"
    by (simp only: root_none_iff [OF root] not_False_eq_True)
  then have "dict_getitem cm k \<noteq> Inr None"
    using k by blast
  then show ?thesis
    by (simp add: w)
qed

subsection \<open>The runs of the plugin\<close>

lemma added_add_methods:
  "added (add_methods ops c cm other_type return_type st) =
     added st @ map (\<lambda>op. (c, op, [Argument (''other'', other_type) other_type ARG_POS], return_type))
                    (filter (\<lambda>op. dict_get cm op = None) ops)"
  by (induction ops arbitrary: st) (simp_all add: add_method_to_class_def insert_method_def)

lemma errors_add_methods:
  "errors (add_methods ops c cm other_type return_type st) = errors st"
  by (induction ops arbitrary: st) (simp_all add: add_method_to_class_def insert_method_def)

lemma add_methods_none:
  "\<forall>op\<in>set ops. dict_get cm op \<noteq> None \<Longrightarrow> add_methods ops c cm other_type return_type st = st"
  by (induction ops arbitrary: st) auto

lemma names_add_methods:
  "names (add_methods ops c cm other_type return_type st) c' n =
     (if c' = c \<and> n \<in> set ops \<and> dict_get cm n = None
      then Some (FuncItem False (Some (CallableType
             (Callable [Instance c [], other_type] [ARG_POS, ARG_POS] return_type))))
      else names st c' n)"
  by (induction ops arbitrary: st) (auto simp: add_method_to_class_def insert_method_def)

lemma callback_ignores_flag:
  "functools_total_ordering_maker_callback ctx a st =
   functools_total_ordering_maker_callback ctx b st"
  by (simp add: functools_total_ordering_maker_callback_def)

lemma callback_after_gate:
  assumes v: "\<not> python_version ctx < [3]"
    and ne: "analyze_class ctx st \<noteq> []"
  shows "\<exists>root e.
      py_max (map fst (analyze_class ctx st)) (root_key (analyze_class ctx st)) = Inr root \<and>
      dict_getitem (analyze_class ctx st) root = Inr e \<and>
      functools_total_ordering_maker_callback ctx auto_attribs_default st =
        (case e of
           None \<Rightarrow> Inr st
         | Some root_method \<Rightarrow>
             Inr (add_methods ORDERING_METHODS (cls ctx) (analyze_class ctx st)
                    (find_other_type root_method) (root_ret_type root_method) st))"
proof -
  define cm where "cm = analyze_class ctx st"
  from ne have ne': "cm \<noteq> []" by (simp add: cm_def)
  then have keys: "map fst cm \<noteq> []" by simp
  obtain root where root: "py_max (map fst cm) (root_key cm) = Inr root"
    using py_max_nonempty [OF keys, of "root_key cm"] by blast
  have "root \<in> set (map fst cm)"
    using py_max_Inr [OF root] by simp
  then obtain e where re: "dict_getitem cm root = Inr e"
    using dict_getitem_key by blast
  have unfold: "functools_total_ordering_maker_callback ctx auto_attribs_default st =
      (case e of None \<Rightarrow> Inr st
       | Some root_method \<Rightarrow>
           Inr (add_methods ORDERING_METHODS (cls ctx) cm
                  (find_other_type root_method) (root_ret_type root_method) st))"
    using v ne' root re
    by (simp add: functools_total_ordering_maker_callback_def cm_def [symmetric])
  show ?thesis
    using root re unfold unfolding cm_def by (intro exI [of _ root] exI [of _ e] conjI)
qed

text \<open>A run never raises: the two lookups that could are guarded.\<close>

lemma callback_no_exception:
  "\<exists>st'. functools_total_ordering_maker_callback ctx auto_attribs_default st = Inr st'"
proof (cases "python_version ctx < [3] \<or> analyze_class ctx st = []")
  case True
  then show ?thesis
    by (auto simp: functools_total_ordering_maker_callback_def)
next
  case False
  then have v: "\<not> python_version ctx < [3]" and ne: "analyze_class ctx st \<noteq> []"
    by simp_all
  obtain root e where
    "functools_total_ordering_maker_callback ctx auto_attribs_default st =
      (case e of
         None \<Rightarrow> Inr st
       | Some root_method \<Rightarrow>
           Inr (add_methods ORDERING_METHODS (cls ctx) (analyze_class ctx st)
                  (find_other_type root_method) (root_ret_type root_method) st))"
    using callback_after_gate [OF v ne, of auto_attribs_default] by (elim exE conjE)
  then show ?thesis
    by (cases e) simp_all
qed

lemma callback_known_root:
  assumes "\<not> python_version ctx < [3]"
    and "py_max (map fst (analyze_class ctx st)) (root_key (analyze_class ctx st)) = Inr root"
    and "dict_getitem (analyze_class ctx st) root = Inr (Some root_method)"
  shows "functools_total_ordering_maker_callback ctx auto_attribs_default st =
           Inr (add_methods ORDERING_METHODS (cls ctx) (analyze_class ctx st)
                  (find_other_type root_method) (root_ret_type root_method) st)"
proof -
  have "analyze_class ctx st \<noteq> []"
    using assms(2) by (auto simp: py_max_def)
  then show ?thesis
    using assms by (simp add: functools_total_ordering_maker_callback_def)
qed

text \<open>
  What a run with a root that has a signature adds: one method for every name without an
  entry that has a signature, all with the operand type and the return type of the root.
\<close>

lemma callback_adds_missing:
  assumes "\<not> python_version ctx < [3]"
    and "py_max (map fst (analyze_class ctx st)) (root_key (analyze_class ctx st)) = Inr root"
    and "dict_getitem (analyze_class ctx st) root = Inr (Some root_method)"
    and "functools_total_ordering_maker_callback ctx auto_attribs_default st = Inr st'"
  shows "added st' = added st @
           map (\<lambda>op. (cls ctx, op,
                  [Argument (''other'', find_other_type root_method)
                     (find_other_type root_method) ARG_POS],
                  root_ret_type root_method))
             (filter (\<lambda>op. dict_get (analyze_class ctx st) op = None) ORDERING_METHODS)"
proof -
  have "st' = add_methods ORDERING_METHODS (cls ctx) (analyze_class ctx st)
                (find_other_type root_method) (root_ret_type root_method) st"
    using callback_known_root [OF assms(1-3), of auto_attribs_default] assms(4) by simp
  then show ?thesis
    by (simp add: added_add_methods)
qed

lemma is_unbound_bool_iff:
  "is_unbound_bool t \<longleftrightarrow>
     (\<exists>name args. t = UnboundType name args \<and> last (str_split name CHR ''.'') = ''bool'')"
  by (cases t) (simp_all add: is_unbound_bool_def)

lemma root_ret_type_cases:
  "root_ret_type m =
     (if ret_type (callable_type m) = named_type ''__builtins__.bool'' \<or>
         is_unbound_bool (get_proper_type (ret_type (callable_type m)))
      then named_type ''__builtins__.bool'' else AnyType implementation_artifact)"
  by (simp add: root_ret_type_def Let_def)

lemma all_present_no_op:
  assumes v: "\<not> python_version ctx < [3]"
    and all: "\<forall>n\<in>set ORDERING_METHODS. map_of (analyze_class ctx st) n \<noteq> None"
  shows "functools_total_ordering_maker_callback ctx auto_attribs_default st = Inr st"
proof -
  define cm where "cm = analyze_class ctx st"
  have keys: "n \<in> set (map fst cm)" if "n \<in> set ORDERING_METHODS" for n
    using all that unfolding cm_def by (intro present_is_key) blast
  have "''__lt__'' \<in> set ORDERING_METHODS"
    by (simp add: ORDERING_METHODS_def)
  then have "''__lt__'' \<in> set (map fst cm)"
    by (rule keys)
  then have ne: "map fst cm \<noteq> []"
    by (cases cm) simp_all
  then have ne': "cm \<noteq> []" by simp
  obtain root where root: "py_max (map fst cm) (root_key cm) = Inr root"
    using py_max_nonempty [OF ne] by blast
  have "root \<in> set (map fst cm)"
    using py_max_Inr [OF root] by simp
  then obtain e where re: "dict_getitem cm root = Inr e"
    using dict_getitem_key by blast
  have unfold: "functools_total_ordering_maker_callback ctx auto_attribs_default st =
      (case e of None \<Rightarrow> Inr st
       | Some root_method \<Rightarrow>
           Inr (add_methods ORDERING_METHODS (cls ctx) cm
                  (find_other_type root_method) (root_ret_type root_method) st))"
    using v ne' root re
    by (simp add: functools_total_ordering_maker_callback_def cm_def [symmetric])
  show ?thesis
  proof (cases e)
    case None
    then show ?thesis by (simp add: unfold)
  next
    case (Some root_method)
    have "\<forall>op\<in>set ORDERING_METHODS. dict_get cm op \<noteq> None"
    proof
      fix op assume "op \<in> set ORDERING_METHODS"
      then have "op \<in> set (map fst cm)" by (rule keys)
      with root re [unfolded Some] show "dict_get cm op \<noteq> None"
        by (rule known_root_all_known)
    qed
    then have "add_methods ORDERING_METHODS (cls ctx) cm
        (find_other_type root_method) (root_ret_type root_method) st = st"
      by (rule add_methods_none)
    then show ?thesis by (simp add: unfold Some)
  qed
qed

lemma quiet_run_cases:
  assumes run: "functools_total_ordering_maker_callback ctx auto_attribs_default st = Inr st1"
    and quiet: "errors st1 = errors st"
  shows "\<not> python_version ctx < [3] \<and> analyze_class ctx st \<noteq> []"
proof (intro conjI notI)
  assume "python_version ctx < [3]"
  then have "st1 = fail python2_message (reason ctx) st"
    using run by (simp add: functools_total_ordering_maker_callback_def)
  then have "errors st1 = errors st @ [(python2_message, reason ctx)]"
    by (simp add: fail_def)
  then show False using quiet by simp
next
  assume e: "analyze_class ctx st = []"
  show False
  proof (cases "python_version ctx < [3]")
    case True
    then have "st1 = fail python2_message (reason ctx) st"
      using run by (simp add: functools_total_ordering_maker_callback_def)
    then have "errors st1 = errors st @ [(python2_message, reason ctx)]"
      by (simp add: fail_def)
    then show False using quiet by simp
  next
    case False
    then have "st1 = fail no_ordering_message (reason ctx) st"
      using run e by (simp add: functools_total_ordering_maker_callback_def)
    then have "errors st1 = errors st @ [(no_ordering_message, reason ctx)]"
      by (simp add: fail_def)
    then show False using quiet by simp
  qed
qed

lemma after_add_present:
  assumes self: "cls ctx \<in> set (butlast (mro ctx))"
    and n: "n \<in> set ORDERING_METHODS"
    and st1: "st1 = add_methods ORDERING_METHODS (cls ctx) (analyze_class ctx st) other ret st"
  shows "map_of (analyze_class ctx st1) n \<noteq> None"
proof (cases "dict_get (analyze_class ctx st) n = None")
  case True
  have "names st1 (cls ctx) n =
      Some (FuncItem False (Some (CallableType
        (Callable [Instance (cls ctx) [], other] [ARG_POS, ARG_POS] ret))))"
    unfolding st1 names_add_methods using n True by simp
  then have "names st1 (cls ctx) n \<noteq> None" by simp
  then have "\<exists>c\<in>set (butlast (mro ctx)). names st1 c n \<noteq> None"
    using self by blast
  then show ?thesis
    unfolding analyze_class_present_iff using n by simp
next
  case False
  then have "map_of (analyze_class ctx st) n \<noteq> None"
    by (auto simp: dict_get_def split: option.splits)
  then obtain c where c: "c \<in> set (butlast (mro ctx))" "names st c n \<noteq> None"
    unfolding analyze_class_present_iff by blast
  have "names st1 c n = names st c n"
    unfolding st1 names_add_methods using False by auto
  then have "names st1 c n \<noteq> None"
    using c(2) by simp
  then have "\<exists>c\<in>set (butlast (mro ctx)). names st1 c n \<noteq> None"
    using c(1) by blast
  then show ?thesis
    unfolding analyze_class_present_iff using n by simp
qed

lemma second_run_no_op:
  assumes self: "cls ctx \<in> set (butlast (mro ctx))"
    and run: "functools_total_ordering_maker_callback ctx auto_attribs_default st = Inr st1"
    and quiet: "errors st1 = errors st"
  shows "functools_total_ordering_maker_callback ctx auto_attribs_default' st1 = Inr st1"
proof -
  have v: "\<not> python_version ctx < [3]" and ne: "analyze_class ctx st \<noteq> []"
    using quiet_run_cases [OF run quiet] by simp_all
  obtain root e where
    unfold: "functools_total_ordering_maker_callback ctx auto_attribs_default st =
      (case e of
         None \<Rightarrow> Inr st
       | Some root_method \<Rightarrow>
           Inr (add_methods ORDERING_METHODS (cls ctx) (analyze_class ctx st)
                  (find_other_type root_method) (root_ret_type root_method) st))"
    using callback_after_gate [OF v ne, of auto_attribs_default] by (elim exE conjE)
  show ?thesis
  proof (cases e)
    case None
    have "Inr st1 = (Inr st :: exception + state)"
      using run unfolding unfold None by simp
    then have "st1 = st" by simp
    then have "functools_total_ordering_maker_callback ctx auto_attribs_default st1 = Inr st1"
      using run by simp
    then show ?thesis
      by (simp only: callback_ignores_flag [of ctx auto_attribs_default' st1 auto_attribs_default])
  next
    case (Some root_method)
    have "Inr st1 = (Inr (add_methods ORDERING_METHODS (cls ctx) (analyze_class ctx st)
        (find_other_type root_method) (root_ret_type root_method) st) :: exception + state)"
      using run unfolding unfold Some by simp
    then have st1: "st1 = add_methods ORDERING_METHODS (cls ctx) (analyze_class ctx st)
        (find_other_type root_method) (root_ret_type root_method) st"
      by simp
    have "\<forall>n\<in>set ORDERING_METHODS. map_of (analyze_class ctx st1) n \<noteq> None"
    proof
      fix n assume "n \<in> set ORDERING_METHODS"
      with self show "map_of (analyze_class ctx st1) n \<noteq> None"
        using st1 by (rule after_add_present)
    qed
    with v show ?thesis
      by (rule all_present_no_op)
  qed
qed

subsection \<open>The enumeration of the set of names\<close>

text \<open>
  The two loops over \<^verbatim>\<open>_ORDERING_METHODS\<close> and the selection of the root do not depend on
  the order in which the names are enumerated: two enumerations of the same names give
  dictionaries with the same entries, dictionaries with the same entries have the same root,
  and the loop that adds the methods leaves the same symbol tables and errors, and has made
  the same calls.
\<close>

lemma analyze_mro_enumeration:
  assumes "set ns = set ns'" and "map_of cm = map_of cm'"
  shows "map_of (analyze_mro cs ns tables cm) = map_of (analyze_mro cs ns' tables cm')"
  using assms by (intro ext) (simp add: map_of_analyze_mro)

lemma dict_same_lookups:
  assumes "map_of cm = map_of cm'"
  shows "dict_get cm = dict_get cm'" and "root_key cm = root_key cm'"
    and "set (map fst cm) = set (map fst cm')"
proof -
  show "dict_get cm = dict_get cm'"
    by (intro ext) (simp add: dict_get_def assms)
  show "root_key cm = root_key cm'"
    by (intro ext) (simp add: root_key_def dict_getitem_def assms)
  have "dom (map_of cm) = dom (map_of cm')"
    by (simp add: assms)
  then show "set (map fst cm) = set (map fst cm')"
    by (simp add: dom_map_of_conv_image_fst)
qed

lemma root_enumeration:
  assumes same: "map_of cm = map_of cm'"
    and r: "py_max (map fst cm) (root_key cm) = Inr r"
    and r': "py_max (map fst cm') (root_key cm') = Inr r'"
  shows "r = r'"
proof -
  have key: "root_key cm' = root_key cm" and keys: "set (map fst cm') = set (map fst cm)"
    using dict_same_lookups [OF same] by simp_all
  have "r \<in> set (map fst cm)" and "r' \<in> set (map fst cm)"
    using py_max_Inr [OF r] py_max_Inr [OF r'] keys by simp_all
  then have "root_key cm r' \<le> root_key cm r" and "root_key cm r \<le> root_key cm r'"
    using py_max_greatest [OF r] py_max_greatest [OF r' [unfolded key]] keys by blast+
  then have "root_key cm r = root_key cm r'"
    by (rule order.antisym [rotated])
  then show ?thesis
    by (simp add: root_key_def)
qed

lemma add_methods_enumeration:
  assumes "set ops = set ops'" and "map_of cm = map_of cm'"
  shows "names (add_methods ops c cm other_type return_type st) =
           names (add_methods ops' c cm' other_type return_type st) \<and>
         errors (add_methods ops c cm other_type return_type st) =
           errors (add_methods ops' c cm' other_type return_type st) \<and>
         set (added (add_methods ops c cm other_type return_type st)) =
           set (added (add_methods ops' c cm' other_type return_type st))"
proof -
  have get: "dict_get cm = dict_get cm'"
    using assms(2) by (rule dict_same_lookups)
  have "names (add_methods ops c cm other_type return_type st) =
      names (add_methods ops' c cm' other_type return_type st)"
    by (intro ext) (simp add: names_add_methods assms(1) get)
  moreover have "set (added (add_methods ops c cm other_type return_type st)) =
      set (added (add_methods ops' c cm' other_type return_type st))"
    by (simp add: added_add_methods assms(1) get)
  ultimately show ?thesis
    by (simp add: errors_add_methods)
qed

subsection \<open>The example classes, evaluated\<close>

lemma version_example_ctx: "\<not> python_version example_ctx < [3]"
  by (simp add: example_ctx_def)

lemma analyze_lt_class:
  "analyze_class example_ctx (lt_class signature) =
     [(''__lt__'', Some (MethodInfo False signature))]"
  by (simp add: analyze_class_def example_ctx_def lt_class_def state_of_def ORDERING_METHODS_def)

lemma root_lt_class:
  "py_max (map fst (analyze_class example_ctx (lt_class signature)))
     (root_key (analyze_class example_ctx (lt_class signature))) = Inr ''__lt__''"
  by (simp add: analyze_lt_class py_max_def)

lemma known_lt_class:
  "dict_getitem (analyze_class example_ctx (lt_class signature)) ''__lt__'' =
     Inr (Some (MethodInfo False signature))"
  by (simp add: analyze_lt_class dict_getitem_def)

lemma add_methods_lt_class:
  "add_methods ORDERING_METHODS (cls example_ctx)
     [(''__lt__'', Some (MethodInfo False signature))] (Instance ''m.T'' []) return_type
     (lt_class signature) = lt_class_completed signature return_type"
  by (simp add: ORDERING_METHODS_def dict_get_def add_method_to_class_def insert_method_def
      lt_class_def lt_class_completed_def state_of_def example_ctx_def added_method_def
      other_argument_def)

lemma run_lt_class:
  assumes "find_other_type (MethodInfo False signature) = Instance ''m.T'' []"
  shows "functools_total_ordering_maker_callback example_ctx flag (lt_class signature) =
           Inr (lt_class_completed signature (root_ret_type (MethodInfo False signature)))"
  using callback_known_root [where auto_attribs_default = flag,
      OF version_example_ctx root_lt_class known_lt_class, of signature]
  by (simp add: analyze_lt_class assms add_methods_lt_class)

lemma other_type_example:
  "find_other_type (MethodInfo False example_signature) = Instance ''m.T'' []"
  by (simp add: find_other_type_def example_signature_def)

lemma other_type_returns_int:
  "find_other_type (MethodInfo False returns_int_signature) = Instance ''m.T'' []"
  by (simp add: find_other_type_def returns_int_signature_def)

lemma ret_type_example:
  "root_ret_type (MethodInfo False example_signature) = named_type ''__builtins__.bool''"
  by (simp add: root_ret_type_def example_signature_def)

lemma ret_type_returns_int:
  "root_ret_type (MethodInfo False returns_int_signature) = AnyType implementation_artifact"
  by (simp add: root_ret_type_def returns_int_signature_def named_type_def is_unbound_bool_def)

lemma analyze_lt_and_le_variable:
  "analyze_class example_ctx lt_and_le_variable =
     [(''__lt__'', Some (MethodInfo False example_signature)), (''__le__'', None)]"
  by (simp add: analyze_class_def example_ctx_def lt_and_le_variable_def state_of_def
      ORDERING_METHODS_def)

lemma analyze_lt_and_inherited_gt:
  "analyze_class example_ctx lt_and_inherited_gt =
     [(''__lt__'', Some (MethodInfo False example_signature)), (''__gt__'', None)]"
  by (simp add: analyze_class_def example_ctx_def lt_and_inherited_gt_def state_of_def
      ORDERING_METHODS_def)

lemma analyze_shadowing:
  "analyze_class example_ctx shadowing =
     [(''__lt__'', Some (MethodInfo False example_signature)),
      (''__ge__'', Some (MethodInfo True static_signature))]"
  by (simp add: analyze_class_def example_ctx_def shadowing_def state_of_def
      ORDERING_METHODS_def)

lemma analyze_all_four:
  "analyze_class example_ctx all_four =
     [(''__lt__'', Some (MethodInfo False example_signature)),
      (''__le__'', Some (MethodInfo False example_signature)),
      (''__gt__'', Some (MethodInfo False example_signature)),
      (''__ge__'', Some (MethodInfo False example_signature))]"
  by (simp add: analyze_class_def example_ctx_def all_four_def state_of_def
      ORDERING_METHODS_def)

subsection \<open>The claims\<close>

text \<open>
  Claim C1. The root that is selected is an entry with a signature whenever the dictionary
  holds one, and among entries of the same kind the order of preference is \<^verbatim>\<open>__lt__\<close>,
  \<^verbatim>\<open>__le__\<close>, \<^verbatim>\<open>__gt__\<close>, \<^verbatim>\<open>__ge__\<close>. The source does not do that: for the class \<^verbatim>\<open>m.C\<close>
  with a method \<^verbatim>\<open>__lt__\<close> and a variable \<^verbatim>\<open>__le__\<close> of type \<^verbatim>\<open>int\<close>, the root is
  \<^verbatim>\<open>__le__\<close>, whose entry is \<^verbatim>\<open>None\<close>, although \<^verbatim>\<open>__lt__\<close> has a signature.
\<close>

theorem root_prefers_unanalyzable_entry:
  "analyze_class example_ctx lt_and_le_variable =
     [(''__lt__'', Some (MethodInfo False example_signature)), (''__le__'', None)] \<and>
   py_max (map fst (analyze_class example_ctx lt_and_le_variable))
     (root_key (analyze_class example_ctx lt_and_le_variable)) = Inr ''__le__'' \<and>
   dict_getitem (analyze_class example_ctx lt_and_le_variable) ''__le__'' = Inr None"
  by (simp add: analyze_lt_and_le_variable py_max_def root_key_def dict_getitem_def)

text \<open>
  Claim C2. A class with an ordering method that has a signature gets every ordering
  method added that has no entry with a signature, also the ones whose entry is \<^verbatim>\<open>None\<close>
  and that are not the root. The source does not do that: for the class \<^verbatim>\<open>m.C\<close> with a
  method \<^verbatim>\<open>__lt__\<close> whose base class \<^verbatim>\<open>m.B\<close> holds something that is no function and no
  variable under \<^verbatim>\<open>__gt__\<close>, the run adds nothing, although \<^verbatim>\<open>__lt__\<close> has a signature
  and \<^verbatim>\<open>__le__\<close>, \<^verbatim>\<open>__gt__\<close> and \<^verbatim>\<open>__ge__\<close> have no entry with a signature.
\<close>

theorem known_root_candidate_not_completed:
  "dict_get (analyze_class example_ctx lt_and_inherited_gt) ''__lt__'' =
     Some (MethodInfo False example_signature) \<and>
   dict_get (analyze_class example_ctx lt_and_inherited_gt) ''__le__'' = None \<and>
   dict_get (analyze_class example_ctx lt_and_inherited_gt) ''__gt__'' = None \<and>
   dict_get (analyze_class example_ctx lt_and_inherited_gt) ''__ge__'' = None \<and>
   functools_total_ordering_maker_callback example_ctx False lt_and_inherited_gt =
     Inr lt_and_inherited_gt"
proof -
  have "py_max (map fst (analyze_class example_ctx lt_and_inherited_gt))
      (root_key (analyze_class example_ctx lt_and_inherited_gt)) = Inr ''__gt__''"
    by (simp add: analyze_lt_and_inherited_gt py_max_def root_key_def dict_getitem_def)
  moreover have "dict_getitem (analyze_class example_ctx lt_and_inherited_gt) ''__gt__'' = Inr None"
    by (simp add: analyze_lt_and_inherited_gt dict_getitem_def)
  ultimately have "functools_total_ordering_maker_callback example_ctx False lt_and_inherited_gt =
      Inr lt_and_inherited_gt"
    using version_example_ctx
    by (simp add: functools_total_ordering_maker_callback_def analyze_lt_and_inherited_gt)
  then show ?thesis
    by (simp add: analyze_lt_and_inherited_gt dict_get_def)
qed

text \<open>
  Claim C3. The dictionary built by the scan has at most one entry for a name. The entry of
  a name comes from the first class of the chain \<^verbatim>\<open>mro[:-1]\<close> (the class itself first, the
  last class \<^verbatim>\<open>object\<close> left out) whose symbol table holds the name; a name that no class
  of the chain holds, and a name that is no ordering method, has no entry. The classes after
  the first one that holds the name are not consulted for it: the entry is the same in
  every state that agrees on that name with the classes up to that one.
\<close>

theorem shadowing_invariant:
  "distinct (map fst (analyze_class ctx st)) \<and>
   map_of (analyze_class ctx st) n =
     (if n \<in> set ORDERING_METHODS then
        (case find (\<lambda>c. names st c n \<noteq> None) (butlast (mro ctx)) of
           None \<Rightarrow> None
         | Some c \<Rightarrow> map_option method_info_of_node (names st c n))
      else None) \<and>
   (\<forall>pre c post. \<forall>st' :: state.
      butlast (mro ctx) = pre @ c # post \<and> names st c n \<noteq> None \<and>
      (\<forall>c'\<in>set (pre @ [c]). names st' c' n = names st c' n) \<longrightarrow>
      map_of (analyze_class ctx st') n = map_of (analyze_class ctx st) n)"
proof (intro conjI allI impI)
  show "distinct (map fst (analyze_class ctx st))"
    by (simp add: analyze_class_def distinct_analyze_mro)
next
  show "map_of (analyze_class ctx st) n =
     (if n \<in> set ORDERING_METHODS then
        (case find (\<lambda>c. names st c n \<noteq> None) (butlast (mro ctx)) of
           None \<Rightarrow> None
         | Some c \<Rightarrow> map_option method_info_of_node (names st c n))
      else None)"
    by (rule map_of_analyze_class)
next
  fix pre c post and st' :: state
  assume a: "butlast (mro ctx) = pre @ c # post \<and> names st c n \<noteq> None \<and>
      (\<forall>c'\<in>set (pre @ [c]). names st' c' n = names st c' n)"
  then have eq: "\<forall>x\<in>set (pre @ [c]). (names st' x n \<noteq> None) = (names st x n \<noteq> None)"
    by simp
  have c': "names st' c n \<noteq> None" using a by simp
  have f: "find (\<lambda>c. names st' c n \<noteq> None) (pre @ c # post) =
           find (\<lambda>c. names st c n \<noteq> None) (pre @ c # post)"
    by (rule find_agree_up_to [OF eq c'])
  show "map_of (analyze_class ctx st') n = map_of (analyze_class ctx st) n"
  proof (cases "find (\<lambda>c. names st c n \<noteq> None) (pre @ c # post)")
    case None
    then show ?thesis using a f by (simp add: map_of_analyze_class)
  next
    case (Some d)
    have "names st c n \<noteq> None" using a by simp
    then have "d \<in> set (pre @ [c])"
      using Some by (rule find_in_prefix)
    then have "names st' d n = names st d n" using a by blast
    then show ?thesis using a f Some by (simp add: map_of_analyze_class)
  qed
qed

theorem shadowing_invariant_witness:
  "distinct (map fst (analyze_class example_ctx shadowing)) \<and>
   map_of (analyze_class example_ctx shadowing) ''__lt__'' =
     Some (Some (MethodInfo False example_signature)) \<and>
   map_of (analyze_class example_ctx shadowing) ''__gt__'' = None \<and>
   butlast (mro example_ctx) = [] @ ''m.C'' # [''m.B''] \<and>
   names shadowing ''m.C'' ''__lt__'' \<noteq> None \<and>
   list_all (\<lambda>c'. names (lt_class example_signature) c' ''__lt__'' = names shadowing c' ''__lt__'')
     ([] @ [''m.C'']) \<and>
   map_of (analyze_class example_ctx (lt_class example_signature)) ''__lt__'' =
     map_of (analyze_class example_ctx shadowing) ''__lt__''"
proof -
  have chain: "butlast (mro example_ctx) = [] @ ''m.C'' # [''m.B'']"
    by (simp add: example_ctx_def)
  have declared: "names shadowing ''m.C'' ''__lt__'' \<noteq> None"
    by (simp add: shadowing_def state_of_def)
  have agree: "\<forall>c'\<in>set ([] @ [''m.C'']).
      names (lt_class example_signature) c' ''__lt__'' = names shadowing c' ''__lt__''"
    by (simp add: shadowing_def lt_class_def state_of_def)
  have inv: "distinct (map fst (analyze_class example_ctx shadowing)) \<and>
      map_of (analyze_class example_ctx (lt_class example_signature)) ''__lt__'' =
        map_of (analyze_class example_ctx shadowing) ''__lt__''"
    using shadowing_invariant [of example_ctx shadowing "''__lt__''"] chain declared agree
    by blast
  show ?thesis
    using inv chain declared agree
    by (simp add: analyze_shadowing list_all_iff)
qed

text \<open>
  Claim C4. The operand type that \<^verbatim>\<open>_find_other_type\<close> computes is the one of the
  specification: the expected position is 0 for a static and 1 for an instance method, only
  required and optional positional parameters are counted, variadic keyword parameters are
  skipped, the positional parameter at the expected position is the operand, a parameter of
  another kind that is met before is the operand at once, and without a candidate the type
  is \<^verbatim>\<open>Any\<close>, marked as an implementation artifact.
\<close>

theorem find_other_type_spec: "find_other_type method = operand_type_spec method"
  by (simp add: find_other_type_def operand_type_spec_def expected_position_def
      find_other_arg_spec [of 0, simplified] split: option.splits)

theorem find_other_type_spec_witness:
  "operand_type_spec (MethodInfo False example_signature) = Instance ''m.T'' [] \<and>
   operand_type_spec (MethodInfo True static_signature) = Instance ''builtins.int'' [] \<and>
   operand_type_spec (MethodInfo False
     (Callable [Instance ''m.C'' [], Instance ''m.K'' [], Instance ''m.T'' []]
        [ARG_POS, ARG_STAR2, ARG_OPT] (AnyType explicit))) = Instance ''m.T'' [] \<and>
   operand_type_spec (MethodInfo False
     (Callable [Instance ''m.C'' [], Instance ''m.T'' []]
        [ARG_POS, ARG_NAMED] (AnyType explicit))) = Instance ''m.T'' [] \<and>
   operand_type_spec (MethodInfo False
     (Callable [Instance ''m.C'' [], Instance ''m.K'' []]
        [ARG_POS, ARG_STAR2] (AnyType explicit))) = AnyType implementation_artifact"
  unfolding find_other_type_spec [symmetric]
  by (simp add: find_other_type_def example_signature_def static_signature_def)

text \<open>
  Claim C5. In a run whose root has a signature, the return type of every method that the
  run adds is \<^verbatim>\<open>bool\<close> exactly when the return type of the root is the type
  \<^verbatim>\<open>named_type('__builtins__.bool')\<close>, or is (as a proper type) an unbound type whose name
  ends, after the last dot, in \<^verbatim>\<open>bool\<close>; in every other case it is \<^verbatim>\<open>Any\<close>, marked as an
  implementation artifact.
\<close>

theorem return_type_resolution:
  assumes "\<not> python_version ctx < [3]"
    and "py_max (map fst (analyze_class ctx st)) (root_key (analyze_class ctx st)) = Inr root"
    and "dict_getitem (analyze_class ctx st) root = Inr (Some root_method)"
    and "functools_total_ordering_maker_callback ctx auto_attribs_default st = Inr st'"
    and "(c, name, args, return_type) \<in> set (drop (length (added st)) (added st'))"
  shows "(return_type = named_type ''__builtins__.bool'' \<longleftrightarrow>
            ret_type (callable_type root_method) = named_type ''__builtins__.bool'' \<or>
            (\<exists>unbound_name unbound_args.
               get_proper_type (ret_type (callable_type root_method)) =
                 UnboundType unbound_name unbound_args \<and>
               last (str_split unbound_name CHR ''.'') = ''bool'')) \<and>
         (return_type \<noteq> named_type ''__builtins__.bool'' \<longrightarrow>
            return_type = AnyType implementation_artifact)"
proof -
  have "st' = add_methods ORDERING_METHODS (cls ctx) (analyze_class ctx st)
                (find_other_type root_method) (root_ret_type root_method) st"
    using callback_known_root [OF assms(1-3), of auto_attribs_default] assms(4) by simp
  then have "return_type = root_ret_type root_method"
    using assms(5) by (auto simp: added_add_methods)
  then show ?thesis
    by (auto simp: root_ret_type_cases is_unbound_bool_iff named_type_def)
qed

theorem return_type_resolution_witness:
  "\<not> python_version example_ctx < [3] \<and>
   py_max (map fst (analyze_class example_ctx (lt_class example_signature)))
     (root_key (analyze_class example_ctx (lt_class example_signature))) = Inr ''__lt__'' \<and>
   dict_getitem (analyze_class example_ctx (lt_class example_signature)) ''__lt__'' =
     Inr (Some (MethodInfo False example_signature)) \<and>
   functools_total_ordering_maker_callback example_ctx False (lt_class example_signature) =
     Inr (lt_class_completed example_signature (named_type ''__builtins__.bool'')) \<and>
   (''m.C'', ''__le__'', other_argument (Instance ''m.T'' []), named_type ''__builtins__.bool'')
     \<in> set (drop (length (added (lt_class example_signature)))
          (added (lt_class_completed example_signature (named_type ''__builtins__.bool'')))) \<and>
   ret_type (callable_type (MethodInfo False example_signature)) =
     named_type ''__builtins__.bool'' \<and>
   functools_total_ordering_maker_callback example_ctx False (lt_class returns_int_signature) =
     Inr (lt_class_completed returns_int_signature (AnyType implementation_artifact)) \<and>
   (''m.C'', ''__le__'', other_argument (Instance ''m.T'' []), AnyType implementation_artifact)
     \<in> set (drop (length (added (lt_class returns_int_signature)))
          (added (lt_class_completed returns_int_signature (AnyType implementation_artifact)))) \<and>
   ret_type (callable_type (MethodInfo False returns_int_signature)) \<noteq>
     named_type ''__builtins__.bool''"
proof -
  have run1: "functools_total_ordering_maker_callback example_ctx False
      (lt_class example_signature) =
      Inr (lt_class_completed example_signature (named_type ''__builtins__.bool''))"
    using run_lt_class [OF other_type_example, of False] by (simp add: ret_type_example)
  have mem1: "(''m.C'', ''__le__'', other_argument (Instance ''m.T'' []),
      named_type ''__builtins__.bool'')
     \<in> set (drop (length (added (lt_class example_signature)))
          (added (lt_class_completed example_signature (named_type ''__builtins__.bool''))))"
    by (simp add: lt_class_def lt_class_completed_def state_of_def)
  have run2: "functools_total_ordering_maker_callback example_ctx False
      (lt_class returns_int_signature) =
      Inr (lt_class_completed returns_int_signature (AnyType implementation_artifact))"
    using run_lt_class [OF other_type_returns_int, of False] by (simp add: ret_type_returns_int)
  have mem2: "(''m.C'', ''__le__'', other_argument (Instance ''m.T'' []),
      AnyType implementation_artifact)
     \<in> set (drop (length (added (lt_class returns_int_signature)))
          (added (lt_class_completed returns_int_signature (AnyType implementation_artifact))))"
    by (simp add: lt_class_def lt_class_completed_def state_of_def)
  have r1: "ret_type (callable_type (MethodInfo False example_signature)) =
      named_type ''__builtins__.bool''"
    using return_type_resolution
      [OF version_example_ctx root_lt_class known_lt_class run1 mem1]
    by (simp add: example_signature_def named_type_def)
  have r2: "ret_type (callable_type (MethodInfo False returns_int_signature)) \<noteq>
      named_type ''__builtins__.bool''"
    using return_type_resolution
      [OF version_example_ctx root_lt_class known_lt_class run2 mem2]
    by (simp add: named_type_def)
  show ?thesis
    using version_example_ctx root_lt_class [of example_signature]
      known_lt_class [of example_signature] run1 mem1 r1 run2 mem2 r2
    by (intro conjI)
qed

text \<open>
  Claim C6. When a root method is selected and its entry in \<^verbatim>\<open>comparison_methods\<close> is
  \<^verbatim>\<open>None\<close> (the name is defined in the chain, but not with a callable signature), the run
  adds no method and reports no error: the state after the run is the state before it.
\<close>

theorem unanalyzable_root_no_op:
  assumes "\<not> python_version ctx < [3]"
    and "py_max (map fst (analyze_class ctx st)) (root_key (analyze_class ctx st)) = Inr root"
    and "dict_getitem (analyze_class ctx st) root = Inr None"
  shows "functools_total_ordering_maker_callback ctx auto_attribs_default st = Inr st"
proof -
  have "analyze_class ctx st \<noteq> []"
    using assms(2) by (auto simp: py_max_def)
  then show ?thesis
    using assms by (simp add: functools_total_ordering_maker_callback_def)
qed

theorem unanalyzable_root_no_op_witness:
  "\<not> python_version example_ctx < [3] \<and>
   py_max (map fst (analyze_class example_ctx lt_and_le_variable))
     (root_key (analyze_class example_ctx lt_and_le_variable)) = Inr ''__le__'' \<and>
   dict_getitem (analyze_class example_ctx lt_and_le_variable) ''__le__'' = Inr None \<and>
   functools_total_ordering_maker_callback example_ctx False lt_and_le_variable =
     Inr lt_and_le_variable"
proof -
  have cm: "analyze_class example_ctx lt_and_le_variable =
      [(''__lt__'', Some (MethodInfo False example_signature)), (''__le__'', None)]"
    by (simp add: analyze_class_def example_ctx_def lt_and_le_variable_def state_of_def
        ORDERING_METHODS_def)
  have v: "\<not> python_version example_ctx < [3]"
    by (simp add: example_ctx_def)
  have r: "py_max (map fst (analyze_class example_ctx lt_and_le_variable))
      (root_key (analyze_class example_ctx lt_and_le_variable)) = Inr ''__le__''"
    by (simp add: cm py_max_def root_key_def dict_getitem_def)
  have n: "dict_getitem (analyze_class example_ctx lt_and_le_variable) ''__le__'' = Inr None"
    by (simp add: cm dict_getitem_def)
  show ?thesis
    using v r n unanalyzable_root_no_op [OF v r n, of False] by simp
qed

text \<open>
  Claim C7. For a supported Python version, when no class of the chain \<^verbatim>\<open>mro[:-1]\<close> defines
  any of the four ordering methods, the run reports exactly one error, the message that no
  ordering operation is defined, and adds no method.
\<close>

theorem no_ordering_operation:
  assumes "\<not> python_version ctx < [3]"
    and "\<forall>c\<in>set (butlast (mro ctx)). \<forall>n\<in>set ORDERING_METHODS. names st c n = None"
  shows "functools_total_ordering_maker_callback ctx auto_attribs_default st =
           Inr (st\<lparr>errors := errors st @ [(no_ordering_message, reason ctx)]\<rparr>)"
  using assms(1) analyze_class_empty [OF assms(2)]
  by (simp add: functools_total_ordering_maker_callback_def fail_def)

theorem no_ordering_operation_witness:
  "\<not> python_version example_ctx < [3] \<and>
   list_all (\<lambda>c. list_all (\<lambda>n. names no_methods c n = None) ORDERING_METHODS)
     (butlast (mro example_ctx)) \<and>
   functools_total_ordering_maker_callback example_ctx False no_methods =
     Inr (no_methods\<lparr>errors := [(no_ordering_message, ''total_ordering'')]\<rparr>)"
proof -
  have v: "\<not> python_version example_ctx < [3]"
    by (simp add: example_ctx_def)
  have d: "\<forall>c\<in>set (butlast (mro example_ctx)). \<forall>n\<in>set ORDERING_METHODS.
      names no_methods c n = None"
    by (simp add: no_methods_def state_of_def)
  have l: "list_all (\<lambda>c. list_all (\<lambda>n. names no_methods c n = None) ORDERING_METHODS)
      (butlast (mro example_ctx))"
    using d by (simp add: list_all_iff)
  show ?thesis
    using v l no_ordering_operation [OF v d, of False]
    by (simp add: no_methods_def state_of_def example_ctx_def)
qed

text \<open>
  Claim C8. For a supported Python version, a run on a class for which the dictionary holds
  all four ordering methods adds no method and reports no error. Hence a second run after a
  first run that reported no error changes nothing, for a class that belongs to its own
  chain (the method resolution order of a class starts with the class): after the first
  run every ordering method is held by a class of the chain.
\<close>

theorem idempotence:
  "(\<not> python_version ctx < [3] \<and>
    (\<forall>n\<in>set ORDERING_METHODS. map_of (analyze_class ctx st) n \<noteq> None) \<longrightarrow>
      functools_total_ordering_maker_callback ctx auto_attribs_default st = Inr st) \<and>
   (cls ctx \<in> set (butlast (mro ctx)) \<and>
    functools_total_ordering_maker_callback ctx auto_attribs_default st = Inr st1 \<and>
    errors st1 = errors st \<longrightarrow>
      functools_total_ordering_maker_callback ctx auto_attribs_default' st1 = Inr st1)"
proof (intro conjI impI)
  assume a: "\<not> python_version ctx < [3] \<and>
    (\<forall>n\<in>set ORDERING_METHODS. map_of (analyze_class ctx st) n \<noteq> None)"
  from a have v: "\<not> python_version ctx < [3]" ..
  from a have p: "\<forall>n\<in>set ORDERING_METHODS. map_of (analyze_class ctx st) n \<noteq> None" ..
  from v p show "functools_total_ordering_maker_callback ctx auto_attribs_default st = Inr st"
    by (rule all_present_no_op)
next
  assume a: "cls ctx \<in> set (butlast (mro ctx)) \<and>
    functools_total_ordering_maker_callback ctx auto_attribs_default st = Inr st1 \<and>
    errors st1 = errors st"
  from a have s: "cls ctx \<in> set (butlast (mro ctx))" ..
  from a have r: "functools_total_ordering_maker_callback ctx auto_attribs_default st = Inr st1"
    by (elim conjE)
  from a have q: "errors st1 = errors st"
    by (elim conjE)
  from s r q
  show "functools_total_ordering_maker_callback ctx auto_attribs_default' st1 = Inr st1"
    by (rule second_run_no_op)
qed

theorem idempotence_witness:
  "\<not> python_version example_ctx < [3] \<and>
   list_all (\<lambda>n. map_of (analyze_class example_ctx all_four) n \<noteq> None) ORDERING_METHODS \<and>
   functools_total_ordering_maker_callback example_ctx False all_four = Inr all_four \<and>
   cls example_ctx \<in> set (butlast (mro example_ctx)) \<and>
   functools_total_ordering_maker_callback example_ctx False (lt_class example_signature) =
     Inr (lt_class_completed example_signature (named_type ''__builtins__.bool'')) \<and>
   errors (lt_class_completed example_signature (named_type ''__builtins__.bool'')) =
     errors (lt_class example_signature) \<and>
   functools_total_ordering_maker_callback example_ctx True
     (lt_class_completed example_signature (named_type ''__builtins__.bool'')) =
     Inr (lt_class_completed example_signature (named_type ''__builtins__.bool''))"
proof -
  have present: "\<forall>n\<in>set ORDERING_METHODS. map_of (analyze_class example_ctx all_four) n \<noteq> None"
    by (simp add: analyze_all_four ORDERING_METHODS_def)
  have self: "cls example_ctx \<in> set (butlast (mro example_ctx))"
    by (simp add: example_ctx_def)
  have run: "functools_total_ordering_maker_callback example_ctx False
      (lt_class example_signature) =
      Inr (lt_class_completed example_signature (named_type ''__builtins__.bool''))"
    using run_lt_class [OF other_type_example, of False] by (simp add: ret_type_example)
  have quiet: "errors (lt_class_completed example_signature (named_type ''__builtins__.bool'')) =
      errors (lt_class example_signature)"
    by (simp add: lt_class_def lt_class_completed_def state_of_def)
  have first: "functools_total_ordering_maker_callback example_ctx False all_four = Inr all_four"
    using idempotence [of example_ctx all_four False] version_example_ctx present by blast
  have second: "functools_total_ordering_maker_callback example_ctx True
      (lt_class_completed example_signature (named_type ''__builtins__.bool'')) =
      Inr (lt_class_completed example_signature (named_type ''__builtins__.bool''))"
    using idempotence [of example_ctx "lt_class example_signature" False
        "lt_class_completed example_signature (named_type ''__builtins__.bool'')" True]
      self run quiet by blast
  have "list_all (\<lambda>n. map_of (analyze_class example_ctx all_four) n \<noteq> None) ORDERING_METHODS"
    using present by (simp add: list_all_iff)
  then show ?thesis
    using version_example_ctx first self run quiet second by (intro conjI)
qed

text \<open>
  Claim C9. When the Python version of the options is below \<^verbatim>\<open>(3,)\<close>, the run reports the
  error that the decorator is not supported in Python 2 and does nothing else: whatever the
  classes of the chain define, no method is added and no symbol table changes.
\<close>

theorem compatibility_gate:
  "python_version ctx < [3] \<Longrightarrow>
     functools_total_ordering_maker_callback ctx auto_attribs_default st =
       Inr (st\<lparr>errors := errors st @ [(python2_message, reason ctx)]\<rparr>)"
  by (simp add: functools_total_ordering_maker_callback_def fail_def)

theorem compatibility_gate_witness:
  "python_version python2_ctx < [3] \<and>
   functools_total_ordering_maker_callback python2_ctx False lt_and_le_variable =
     Inr (lt_and_le_variable\<lparr>errors := [(python2_message, ''total_ordering'')]\<rparr>)"
proof -
  have v: "python_version python2_ctx < [3]"
    by (simp add: python2_ctx_def example_ctx_def)
  show ?thesis
    using v compatibility_gate [OF v, of False lt_and_le_variable]
    by (simp add: python2_ctx_def example_ctx_def lt_and_le_variable_def state_of_def)
qed

text \<open>
  Claim C10. The argument \<^verbatim>\<open>auto_attribs_default\<close> is never read: the runs with \<^verbatim>\<open>True\<close> and
  with \<^verbatim>\<open>False\<close> on the same class and state report the same errors and add the same
  methods.
\<close>

theorem auto_attribs_default_unused:
  "functools_total_ordering_maker_callback ctx True st =
   functools_total_ordering_maker_callback ctx False st"
  by (simp add: functools_total_ordering_maker_callback_def)

end
